theory Spec2Isabelle
  imports Main
begin

section \<open>Python values, errors and effects\<close>

text \<open>
  The script \<^verbatim>\<open>Planning_Parcel_Tool.py\<close> runs top to bottom against the ArcGIS project
  that is open. Attribute values read through a cursor are text or null; a Python
  \<^verbatim>\<open>str\<close> is modelled as a \<^typ>\<open>string\<close> of code points below 256.
\<close>

datatype pyval = PyNone | PyStr string

text \<open>What an f-string prints for a value.\<close>

fun py_format :: "pyval \<Rightarrow> string" where
  "py_format PyNone = ''None''"
| "py_format (PyStr s) = s"

text \<open>
  A cell of the spreadsheet is text or blank. pandas reads a blank cell as the float
  \<^verbatim>\<open>nan\<close>, which an f-string prints as \<^verbatim>\<open>nan\<close>. Cells of other kinds (numbers,
  dates) are outside the model.
\<close>

datatype cell = Blank | Text string

fun cell_format :: "cell \<Rightarrow> string" where
  "cell_format Blank = ''nan''"
| "cell_format (Text s) = s"

fun is_text :: "cell \<Rightarrow> bool" where
  "is_text Blank = False"
| "is_text (Text s) = True"

text \<open>
  The exceptions the script can end with: \<^verbatim>\<open>next(cursor)\<close> on an exhausted cursor,
  \<^verbatim>\<open>xs[0]\<close> on an empty list, \<^verbatim>\<open>d[k]\<close> on a missing key, an attribute that
  an object does not have (\<^verbatim>\<open>.centroid\<close> of a point, \<^verbatim>\<open>.str\<close> of a column that
  is not text), \<^verbatim>\<open>open\<close> on a path that cannot be written, and the two
  \<^verbatim>\<open>raise Exception(message)\<close> statements.
\<close>

datatype error =
  StopIteration | IndexError | KeyError | AttributeError | OSError | Exception string

definition DistrictNotFound :: error where
  "DistrictNotFound = Exception ''No planning district found for selected parcel.''"

definition LandUseNotFound :: error where
  "LandUseNotFound = Exception ''No land use value found for selected parcel.''"

definition first_item :: "'a list \<Rightarrow> error + 'a" where
  "first_item xs = (case xs of [] \<Rightarrow> Inl IndexError | x # _ \<Rightarrow> Inr x)"

definition next_item :: "'a list \<Rightarrow> error + 'a" where
  "next_item xs = (case xs of [] \<Rightarrow> Inl StopIteration | x # _ \<Rightarrow> Inr x)"

definition dict_item :: "(string \<rightharpoonup> pyval) \<Rightarrow> string \<Rightarrow> error + pyval" where
  "dict_item d k = (case d k of None \<Rightarrow> Inl KeyError | Some v \<Rightarrow> Inr v)"

text \<open>
  The calls of steps 6 and 7 that act on the outside world, in the order the script
  makes them. \<open>'x\<close> is the type of extents, \<open>'o\<close> the type of the objects of the
  project (maps, layers, layouts, map frames).
\<close>

datatype ('x, 'o) effect =
    SetExtent 'o 'x
  | SetScale 'o int
  | ExportToJPEG 'o string nat
  | WriteFile string string
  | AddMessage string

section \<open>The collaborators\<close>

text \<open>
  arcpy, \<^verbatim>\<open>os.path\<close>, the file system and the arithmetic of floats are not part of the
  repository: what they answer is a parameter of the model. \<open>SearchCursor E layer q field\<close>
  lists the rows \<open>(SHAPE@, field)\<close> of a layer whose definition query is \<open>q\<close>, in
  the cursor's order. \<open>'c\<close> is the type of coordinates (Python floats), and
  \<open>float_add E x d\<close> is what \<^verbatim>\<open>x + d\<close> gives for a float \<open>x\<close> and an integer
  \<open>d\<close>. \<open>centroid E g\<close> is \<open>None\<close> when the object \<open>g\<close> has no attribute
  \<^verbatim>\<open>centroid\<close>. \<open>writable E path\<close> tells whether \<^verbatim>\<open>open(path, 'w')\<close> goes
  through.
\<close>

record ('c, 'g, 's, 'x, 'o) arcpy =
  listMaps :: "'o list"
  listLayers :: "'o \<Rightarrow> pyval \<Rightarrow> 'o list"
  isFeatureLayer :: "'o \<Rightarrow> bool"
  SearchCursor :: "'o \<Rightarrow> string \<Rightarrow> string \<Rightarrow> ('g \<times> pyval) list"
  contains :: "'g \<Rightarrow> 'g \<Rightarrow> bool"
  overlaps :: "'g \<Rightarrow> 'g \<Rightarrow> bool"
  extent :: "'g \<Rightarrow> 'x"
  centroid :: "'g \<Rightarrow> 'g option"
  coord_X :: "'g \<Rightarrow> 'c"
  coord_Y :: "'g \<Rightarrow> 'c"
  float_add :: "'c \<Rightarrow> int \<Rightarrow> 'c"
  spatialReference :: "'g \<Rightarrow> 's"
  Point :: "'c \<Rightarrow> 'c \<Rightarrow> 'g"
  PointGeometry :: "'g \<Rightarrow> 's \<Rightarrow> 'g"
  listLayouts :: "string \<Rightarrow> 'o list"
  listElements :: "'o \<Rightarrow> string \<Rightarrow> string \<Rightarrow> 'o list"
  path_join :: "string \<Rightarrow> string \<Rightarrow> string"
  writable :: "string \<Rightarrow> bool"

text \<open>
  The state of the project the script reads back: the definition query of every layer.
\<close>

type_synonym 'o layer_state = "'o \<Rightarrow> string"

definition cursor ::
  "('c, 'g, 's, 'x, 'o) arcpy \<Rightarrow> 'o layer_state \<Rightarrow> 'o \<Rightarrow> string \<Rightarrow> ('g \<times> pyval) list" where
  "cursor E st layer field = SearchCursor E layer (st layer) field"

section \<open>Constants\<close>

definition parcel_layer_name :: string where
  "parcel_layer_name = ''Subject Parcel''"

definition district_outline_name :: string where
  "district_outline_name = ''Planning District Outline''"

definition district_to_layer :: "(string \<times> string) list" where
  "district_to_layer =
    [(''Fort Lewis Mesa'', ''Fort Lewis Mesa''),
     (''Animas Valley'', ''Animas Valley''),
     (''Animas Zoning District'', ''Animas Zoning District''),
     (''Gem Village Business District'', ''Gem Village Business District''),
     (''Durango District Plan'', ''Durango District Plan''),
     (''Florida Mesa'', ''Florida Mesa''),
     (''La Posta Road'', ''La Posta Road''),
     (''Florida Road'', ''Florida Road''),
     (''Junction Creek'', ''Junction Creek''),
     (''North County'', ''North County''),
     (''Vallecito'', ''Vallecito''),
     (''West Durango'', ''West Durango'')]"

text \<open>\<^verbatim>\<open>district_to_layer.get(k)\<close>: the value, or \<^verbatim>\<open>None\<close> for a missing key.\<close>

definition district_to_layer_get :: "string \<Rightarrow> pyval" where
  "district_to_layer_get k =
    (case map_of district_to_layer k of None \<Rightarrow> PyNone | Some v \<Rightarrow> PyStr v)"

definition directions :: "(string \<times> int \<times> int) list" where
  "directions =
    [(''North'', 0, 50), (''East'', 50, 0), (''South'', 0, - 50), (''West'', - 50, 0)]"

definition layout_exports :: "(string \<times> string \<times> int option) list" where
  "layout_exports =
    [(''Layout1'', ''Figure 1'', Some 2640),
     (''Layout2'', ''Figure 2'', None),
     (''Layout3'', ''Figure 3'', None)]"

section \<open>Getting the layers\<close>

definition get_layers :: "('c, 'g, 's, 'x, 'o) arcpy \<Rightarrow> error + ('o \<times> 'o \<times> 'o)" where
  "get_layers E =
    (case first_item (listMaps E) of
       Inl e \<Rightarrow> Inl e
     | Inr map_obj \<Rightarrow>
        (case first_item (listLayers E map_obj (PyStr parcel_layer_name)) of
           Inl e \<Rightarrow> Inl e
         | Inr parcel_layer \<Rightarrow>
            (case first_item
                    (filter (isFeatureLayer E)
                       (listLayers E map_obj (PyStr district_outline_name))) of
               Inl e \<Rightarrow> Inl e
             | Inr district_layer \<Rightarrow> Inr (map_obj, parcel_layer, district_layer))))"

section \<open>Step 1: definition query and parcel geometry\<close>

definition definition_query :: "string \<Rightarrow> string" where
  "definition_query parcel_number =
     ''ParcelNumber = '' @ [CHR 0x27] @ parcel_number @ [CHR 0x27]"

definition parcel_geom ::
  "('c, 'g, 's, 'x, 'o) arcpy \<Rightarrow> 'o layer_state \<Rightarrow> 'o \<Rightarrow> string \<Rightarrow>
     (error + ('g \<times> 'x)) \<times> 'o layer_state" where
  "parcel_geom E st parcel_layer parcel_number =
    (let st' = st(parcel_layer := definition_query parcel_number) in
     (case next_item (cursor E st' parcel_layer ''ParcelNumber'') of
        Inl e \<Rightarrow> (Inl e, st')
      | Inr row \<Rightarrow> (Inr (fst row, extent E (fst row)), st')))"

section \<open>Steps 2 and 3: planning district and land use\<close>

text \<open>
  The three cursor loops have one shape: the variable keeps its initial value until the
  first row whose shape passes the test, takes that row's attribute, and the loop breaks.
  (In step 4 the initial value is what the \<^verbatim>\<open>else\<close> branch of the loop assigns.)
\<close>

fun scan_rows :: "('g \<Rightarrow> bool) \<Rightarrow> pyval \<Rightarrow> ('g \<times> pyval) list \<Rightarrow> pyval" where
  "scan_rows test init [] = init"
| "scan_rows test init (row # rows) =
     (if test (fst row) then snd row else scan_rows test init rows)"

text \<open>\<^verbatim>\<open>if not v: raise Exception(...)\<close>: \<^verbatim>\<open>None\<close> and the empty string are false.\<close>

definition require :: "error \<Rightarrow> pyval \<Rightarrow> error + string" where
  "require e v =
    (case v of PyNone \<Rightarrow> Inl e | PyStr s \<Rightarrow> (if s = [] then Inl e else Inr s))"

definition planning_district ::
  "('c, 'g, 's, 'x, 'o) arcpy \<Rightarrow> 'o layer_state \<Rightarrow> 'o \<Rightarrow> 'g \<Rightarrow> error + string" where
  "planning_district E st district_layer pg =
    require DistrictNotFound
      (scan_rows (\<lambda>shape. contains E shape pg) PyNone
         (cursor E st district_layer ''PLANNAME''))"

definition land_use_layer :: "('c, 'g, 's, 'x, 'o) arcpy \<Rightarrow> 'o \<Rightarrow> string \<Rightarrow> error + 'o" where
  "land_use_layer E map_obj district =
     first_item (listLayers E map_obj (district_to_layer_get district))"

definition land_use_value ::
  "('c, 'g, 's, 'x, 'o) arcpy \<Rightarrow> 'o layer_state \<Rightarrow> 'o \<Rightarrow> 'g \<Rightarrow> error + string" where
  "land_use_value E st layer pg =
    require LandUseNotFound
      (scan_rows (\<lambda>shape. overlaps E shape pg \<or> contains E shape pg) PyNone
         (cursor E st layer ''LUC_TEXT''))"

section \<open>Step 4: adjacent land uses\<close>

text \<open>Reading \<^verbatim>\<open>g.centroid\<close>.\<close>

definition get_centroid :: "('c, 'g, 's, 'x, 'o) arcpy \<Rightarrow> 'g \<Rightarrow> error + 'g" where
  "get_centroid E g = (case centroid E g of None \<Rightarrow> Inl AttributeError | Some c \<Rightarrow> Inr c)"

text \<open>
  The point geometry of line 91 once \<^verbatim>\<open>centroid.centroid\<close> is read: \<open>cc\<close> is the
  object it gave, \<open>pg\<close> the parcel geometry.
\<close>

definition offset_point ::
  "('c, 'g, 's, 'x, 'o) arcpy \<Rightarrow> 'g \<Rightarrow> 'g \<Rightarrow> int \<Rightarrow> int \<Rightarrow> 'g" where
  "offset_point E pg cc dx dy =
     PointGeometry E
       (Point E (float_add E (coord_X E cc) dx) (float_add E (coord_Y E cc) dy))
       (spatialReference E pg)"

text \<open>\<open>c\<close> is the variable \<^verbatim>\<open>centroid\<close> of line 89.\<close>

definition probe ::
  "('c, 'g, 's, 'x, 'o) arcpy \<Rightarrow> 'g \<Rightarrow> 'g \<Rightarrow> int \<Rightarrow> int \<Rightarrow> error + 'g" where
  "probe E pg c dx dy =
    (case get_centroid E c of
       Inl e \<Rightarrow> Inl e
     | Inr cc \<Rightarrow> Inr (offset_point E pg cc dx dy))"

fun directional_loop ::
  "('c, 'g, 's, 'x, 'o) arcpy \<Rightarrow> 'o layer_state \<Rightarrow> 'o \<Rightarrow> 'g \<Rightarrow> 'g \<Rightarrow>
     (string \<times> int \<times> int) list \<Rightarrow> (string \<rightharpoonup> pyval) \<Rightarrow> error + (string \<rightharpoonup> pyval)" where
  "directional_loop E st layer pg c [] d = Inr d"
| "directional_loop E st layer pg c ((dir, dx, dy) # rest) d =
    (case probe E pg c dx dy of
       Inl e \<Rightarrow> Inl e
     | Inr p \<Rightarrow>
        directional_loop E st layer pg c rest
          (d(dir \<mapsto> scan_rows (\<lambda>shape. contains E shape p)
                       (PyStr ''Unknown'') (cursor E st layer ''LUC_TEXT''))))"

definition directional_land_use ::
  "('c, 'g, 's, 'x, 'o) arcpy \<Rightarrow> 'o layer_state \<Rightarrow> 'o \<Rightarrow> 'g \<Rightarrow>
     error + (string \<rightharpoonup> pyval)" where
  "directional_land_use E st layer pg =
    (case get_centroid E pg of
       Inl e \<Rightarrow> Inl e
     | Inr c \<Rightarrow> directional_loop E st layer pg c directions Map.empty)"

section \<open>Step 5: the row of the spreadsheet\<close>

record table_row =
  col_DISTRICT_PLAN :: cell
  col_TYPE :: cell
  col_SIZE :: cell
  col_DESC :: cell

definition is_space :: "char \<Rightarrow> bool" where
  "is_space c =
    (let n = (of_char c :: nat) in
     (9 \<le> n \<and> n \<le> 13) \<or> (28 \<le> n \<and> n \<le> 32) \<or> n = 133 \<or> n = 160)"

definition lower_char :: "char \<Rightarrow> char" where
  "lower_char c =
    (let n = (of_char c :: nat) in
     if (65 \<le> n \<and> n \<le> 90) \<or> (192 \<le> n \<and> n \<le> 214) \<or> (216 \<le> n \<and> n \<le> 222)
     then char_of (n + 32) else c)"

definition str_strip :: "string \<Rightarrow> string" where
  "str_strip s = rev (dropWhile is_space (rev (dropWhile is_space s)))"

definition str_lower :: "string \<Rightarrow> string" where
  "str_lower s = map lower_char s"

definition normalize :: "string \<Rightarrow> string" where
  "normalize s = str_lower (str_strip s)"

text \<open>
  \<^verbatim>\<open>column.str\<close>: pandas gives the accessor for a column of text (blank cells among
  the text, or no row at all) and raises AttributeError for a column that has rows and
  no text cell, which it holds as floats.
\<close>

definition str_accessor :: "cell list \<Rightarrow> error + cell list" where
  "str_accessor column =
    (if column = [] then Inr column
     else if list_ex is_text column then Inr column
     else Inl AttributeError)"

text \<open>
  The column operations \<^verbatim>\<open>.str.strip().str.lower()\<close> leave a blank cell blank, and a
  blank cell compares unequal to every string.
\<close>

fun series_normalize :: "cell \<Rightarrow> cell" where
  "series_normalize Blank = Blank"
| "series_normalize (Text s) = Text (normalize s)"

fun series_eq :: "cell \<Rightarrow> string \<Rightarrow> bool" where
  "series_eq Blank s = False"
| "series_eq (Text c) s = (c = s)"

text \<open>One side of the \<^verbatim>\<open>&\<close> of lines 101 and 102: a column of truth values.\<close>

definition key_mask :: "cell list \<Rightarrow> string \<Rightarrow> error + bool list" where
  "key_mask column key =
    (case str_accessor column of
       Inl e \<Rightarrow> Inl e
     | Inr texts \<Rightarrow> Inr (map (\<lambda>c. series_eq (series_normalize c) (normalize key)) texts))"

definition match :: "table_row list \<Rightarrow> string \<Rightarrow> string \<Rightarrow> error + table_row list" where
  "match df district land_use =
    (case key_mask (map col_DISTRICT_PLAN df) district of
       Inl e \<Rightarrow> Inl e
     | Inr left \<Rightarrow>
        (case key_mask (map col_TYPE df) land_use of
           Inl e \<Rightarrow> Inl e
         | Inr right \<Rightarrow>
            Inr (map fst (filter snd (zip df (map2 (\<and>) left right))))))"

definition size_desc :: "table_row list \<Rightarrow> string \<Rightarrow> string \<Rightarrow> error + cell \<times> cell" where
  "size_desc df district land_use =
    (case match df district land_use of
       Inl e \<Rightarrow> Inl e
     | Inr [] \<Rightarrow> Inr (Text ''Not found'', Text ''Not found'')
     | Inr (row # rest) \<Rightarrow> Inr (col_SIZE row, col_DESC row))"

section \<open>Steps 1 to 5 together\<close>

text \<open>What steps 1 to 5 leave for the layouts and the summary.\<close>

record 'x resolved =
  r_extent :: 'x
  r_district :: string
  r_land_use :: string
  r_size :: cell
  r_desc :: cell
  r_directional :: "string \<rightharpoonup> pyval"

definition resolve ::
  "('c, 'g, 's, 'x, 'o) arcpy \<Rightarrow> table_row list \<Rightarrow> string \<Rightarrow> 'o layer_state \<Rightarrow>
     (error + 'x resolved) \<times> 'o layer_state" where
  "resolve E df parcel_number st =
    (case get_layers E of
       Inl e \<Rightarrow> (Inl e, st)
     | Inr (map_obj, parcel_layer, district_layer) \<Rightarrow>
        (case parcel_geom E st parcel_layer parcel_number of
           (Inl e, st1) \<Rightarrow> (Inl e, st1)
         | (Inr (pg, parcel_extent), st1) \<Rightarrow>
            (case planning_district E st1 district_layer pg of
               Inl e \<Rightarrow> (Inl e, st1)
             | Inr district \<Rightarrow>
                (case land_use_layer E map_obj district of
                   Inl e \<Rightarrow> (Inl e, st1)
                 | Inr layer \<Rightarrow>
                    (case land_use_value E st1 layer pg of
                       Inl e \<Rightarrow> (Inl e, st1)
                     | Inr land_use \<Rightarrow>
                        (case directional_land_use E st1 layer pg of
                           Inl e \<Rightarrow> (Inl e, st1)
                         | Inr directional \<Rightarrow>
                            (case size_desc df district land_use of
                               Inl e \<Rightarrow> (Inl e, st1)
                             | Inr found \<Rightarrow>
                                (Inr \<lparr>r_extent = parcel_extent,
                                      r_district = district,
                                      r_land_use = land_use,
                                      r_size = fst found,
                                      r_desc = snd found,
                                      r_directional = directional\<rparr>,
                                 st1))))))))"

section \<open>Step 6: the layouts\<close>

fun export_layouts ::
  "('c, 'g, 's, 'x, 'o) arcpy \<Rightarrow> 'x \<Rightarrow> string \<Rightarrow> string \<Rightarrow>
     (string \<times> string \<times> int option) list \<Rightarrow> (error + unit) \<times> ('x, 'o) effect list" where
  "export_layouts E parcel_extent output_folder parcel_number [] = (Inr (), [])"
| "export_layouts E parcel_extent output_folder parcel_number
       ((layout_name, frame, scale) # rest) =
    (case first_item (listLayouts E layout_name) of
       Inl e \<Rightarrow> (Inl e, [])
     | Inr layout \<Rightarrow>
        (case first_item (listElements E layout ''MAPFRAME_ELEMENT'' frame) of
           Inl e \<Rightarrow> (Inl e, [])
         | Inr map_frame \<Rightarrow>
            (let done =
                   [SetExtent map_frame parcel_extent] @
                   (case scale of
                      None \<Rightarrow> []
                    | Some sc \<Rightarrow> (if sc = 0 then [] else [SetScale map_frame sc])) @
                   [ExportToJPEG layout
                      (path_join E output_folder
                         (parcel_number @ ''_'' @ layout_name @ ''.jpg'')) 300];
                 more = export_layouts E parcel_extent output_folder parcel_number rest
             in (fst more, done @ snd more))))"

section \<open>Step 7: the summary\<close>

definition nl :: string where
  "nl = [CHR 0x0A]"

definition summary_text ::
  "string \<Rightarrow> string \<Rightarrow> string \<Rightarrow> cell \<Rightarrow> cell \<Rightarrow> (string \<rightharpoonup> pyval) \<Rightarrow> error + string" where
  "summary_text parcel_number district land_use size_v desc_v d =
    (case dict_item d ''North'' of
       Inl e \<Rightarrow> Inl e
     | Inr north \<Rightarrow>
    (case dict_item d ''East'' of
       Inl e \<Rightarrow> Inl e
     | Inr east \<Rightarrow>
    (case dict_item d ''South'' of
       Inl e \<Rightarrow> Inl e
     | Inr south \<Rightarrow>
    (case dict_item d ''West'' of
       Inl e \<Rightarrow> Inl e
     | Inr west \<Rightarrow>
        Inr (nl @ ''Parcel Number: '' @ parcel_number @ nl @
             ''Planning District: '' @ district @ nl @
             ''Land Use Type: '' @ land_use @ nl @
             nl @
             ''From Excel:'' @ nl @
             ''  Size: '' @ cell_format size_v @ nl @
             ''  Description: '' @ cell_format desc_v @ nl @
             nl @
             ''Adjacent Land Use:'' @ nl @
             ''  North: '' @ py_format north @ nl @
             ''  East:  '' @ py_format east @ nl @
             ''  South: '' @ py_format south @ nl @
             ''  West:  '' @ py_format west @ nl)))))"

section \<open>The whole script\<close>

text \<open>
  A run gives how the script ends (the text of the summary, or the exception), the
  definition queries it leaves behind, and the effects of steps 6 and 7 in order.
\<close>

definition publish ::
  "('c, 'g, 's, 'x, 'o) arcpy \<Rightarrow> string \<Rightarrow> string \<Rightarrow> 'x resolved \<Rightarrow>
     (error + string) \<times> ('x, 'o) effect list" where
  "publish E output_folder parcel_number r =
    (case export_layouts E (r_extent r) output_folder parcel_number layout_exports of
       (Inl e, effs) \<Rightarrow> (Inl e, effs)
     | (Inr u, effs) \<Rightarrow>
        (case summary_text parcel_number (r_district r) (r_land_use r)
                (r_size r) (r_desc r) (r_directional r) of
           Inl e \<Rightarrow> (Inl e, effs)
         | Inr text \<Rightarrow>
            (if writable E (path_join E output_folder (parcel_number @ ''_summary.txt''))
             then
               (Inr text,
                effs @
                [WriteFile (path_join E output_folder (parcel_number @ ''_summary.txt'')) text,
                 AddMessage ''Parcel report complete.''])
             else (Inl OSError, effs))))"

definition parcel_report ::
  "('c, 'g, 's, 'x, 'o) arcpy \<Rightarrow> table_row list \<Rightarrow> string \<Rightarrow> string \<Rightarrow> 'o layer_state \<Rightarrow>
     (error + string) \<times> 'o layer_state \<times> ('x, 'o) effect list" where
  "parcel_report E df output_folder parcel_number st =
    (case resolve E df parcel_number st of
       (Inl e, st1) \<Rightarrow> (Inl e, st1, [])
     | (Inr r, st1) \<Rightarrow>
        (fst (publish E output_folder parcel_number r), st1,
         snd (publish E output_folder parcel_number r)))"

text \<open>The rendered layouts and the text summary among the effects.\<close>

fun is_output :: "('x, 'o) effect \<Rightarrow> bool" where
  "is_output (ExportToJPEG layout path res) = True"
| "is_output (WriteFile path text) = True"
| "is_output eff = False"

section \<open>A small project to run the script on\<close>

text \<open>
  Shapes are axis-parallel boxes and points; a layer is known by its name and lists
  features \<open>(shape, parcel number, label)\<close>. A layer with an empty definition query
  shows every feature, one with the query of step 1 shows the features of that parcel.
  Coordinates are whole numbers, small enough for floats to add them exactly; a point is
  its own centroid, and every path can be written.
\<close>

datatype shape = Box int int int int | Dot int int

datatype obj = TheMap | Layer string | Layout string | Frame string

fun box_contains :: "shape \<Rightarrow> shape \<Rightarrow> bool" where
  "box_contains (Box a b c d) (Box a' b' c' d') = (a \<le> a' \<and> b \<le> b' \<and> c' \<le> c \<and> d' \<le> d)"
| "box_contains (Box a b c d) (Dot x y) = (a < x \<and> x < c \<and> b < y \<and> y < d)"
| "box_contains (Dot x y) s = False"

fun box_meets :: "shape \<Rightarrow> shape \<Rightarrow> bool" where
  "box_meets (Box a b c d) (Box a' b' c' d') = (a < c' \<and> a' < c \<and> b < d' \<and> b' < d)"
| "box_meets s t = False"

definition box_overlaps :: "shape \<Rightarrow> shape \<Rightarrow> bool" where
  "box_overlaps s t =
    (if box_contains s t then False else if box_contains t s then False else box_meets s t)"

fun box_centroid :: "shape \<Rightarrow> shape" where
  "box_centroid (Box a b c d) = Dot ((a + c) div 2) ((b + d) div 2)"
| "box_centroid (Dot x y) = Dot x y"

fun shape_X :: "shape \<Rightarrow> int" where
  "shape_X (Dot x y) = x"
| "shape_X (Box a b c d) = (a + c) div 2"

fun shape_Y :: "shape \<Rightarrow> int" where
  "shape_Y (Dot x y) = y"
| "shape_Y (Box a b c d) = (b + d) div 2"

type_synonym feature = "shape \<times> string \<times> pyval"

fun feature_row :: "string \<Rightarrow> feature \<Rightarrow> shape \<times> pyval" where
  "feature_row field (s, number, label) =
     (s, if field = ''ParcelNumber'' then PyStr number else label)"

fun feature_shown :: "string \<Rightarrow> feature \<Rightarrow> bool" where
  "feature_shown q (s, number, label) =
     (if q = [] then True else q = definition_query number)"

fun layer_named :: "string \<Rightarrow> obj \<Rightarrow> bool" where
  "layer_named n (Layer m) = (n = m)"
| "layer_named n other = False"

definition demo ::
  "obj list \<Rightarrow> (string \<Rightarrow> feature list) \<Rightarrow> string list \<Rightarrow> (int, shape, unit, shape, obj) arcpy" where
  "demo layers features layouts =
    \<lparr>listMaps = [TheMap],
     listLayers = (\<lambda>m w. case w of PyNone \<Rightarrow> layers | PyStr n \<Rightarrow> filter (layer_named n) layers),
     isFeatureLayer = (\<lambda>layer. True),
     SearchCursor = (\<lambda>layer q field.
        case layer of
          Layer n \<Rightarrow> map (feature_row field) (filter (feature_shown q) (features n))
        | TheMap \<Rightarrow> [] | Layout n \<Rightarrow> [] | Frame n \<Rightarrow> []),
     contains = box_contains,
     overlaps = box_overlaps,
     extent = (\<lambda>s. s),
     centroid = (\<lambda>s. Some (box_centroid s)),
     coord_X = shape_X,
     coord_Y = shape_Y,
     float_add = (\<lambda>x d. x + d),
     spatialReference = (\<lambda>s. ()),
     Point = Dot,
     PointGeometry = (\<lambda>p sr. p),
     listLayouts = (\<lambda>n. map Layout (filter (\<lambda>m. m = n) layouts)),
     listElements = (\<lambda>layout kind n. [Frame n]),
     path_join = (\<lambda>folder name. folder @ ''/'' @ name),
     writable = (\<lambda>path. True)\<rparr>"

definition features_of :: "(string \<times> feature list) list \<Rightarrow> string \<Rightarrow> feature list" where
  "features_of table n = (case map_of table n of None \<Rightarrow> [] | Some fs \<Rightarrow> fs)"

text \<open>
  The project of the examples: two parcels, one district, and its land-use layer with
  a zone around parcel P1, zones to its north, east and south, and none to its west.
  Parcel P2 lies outside the district.
\<close>

definition demo_layers :: "obj list" where
  "demo_layers =
    [Layer ''Subject Parcel'', Layer ''Planning District Outline'', Layer ''Florida Mesa'']"

definition demo_parcels :: "feature list" where
  "demo_parcels =
    [(Box 100 100 120 120, ''P1'', PyNone), (Box 500 500 520 520, ''P2'', PyNone)]"

definition demo_zones :: "feature list" where
  "demo_zones =
    [(Box 90 90 130 130, '''', PyStr ''Agricultural''),
     (Box 0 130 400 400, '''', PyStr ''Residential''),
     (Box 130 0 400 130, '''', PyStr ''Commercial''),
     (Box 0 0 130 90, '''', PyStr ''Residential'')]"

definition demo_features :: "(string \<times> feature list) list" where
  "demo_features =
    [(''Subject Parcel'', demo_parcels),
     (''Planning District Outline'', [(Box 0 0 400 400, '''', PyStr ''Florida Mesa'')]),
     (''Florida Mesa'', demo_zones)]"

definition demo_layouts :: "string list" where
  "demo_layouts = [''Layout1'', ''Layout2'', ''Layout3'']"

definition demo_project :: "(int, shape, unit, shape, obj) arcpy" where
  "demo_project = demo demo_layers (features_of demo_features) demo_layouts"

definition demo_table :: "table_row list" where
  "demo_table =
    [\<lparr>col_DISTRICT_PLAN = Text ''Animas Valley'', col_TYPE = Text ''Residential'',
      col_SIZE = Text ''10 acres'', col_DESC = Text ''Valley floor''\<rparr>,
     \<lparr>col_DISTRICT_PLAN = Text '' florida mesa '', col_TYPE = Text ''AGRICULTURAL '',
      col_SIZE = Text ''35 acres'', col_DESC = Text ''Farm land''\<rparr>]"


definition no_queries :: "obj layer_state" where
  "no_queries = (\<lambda>layer. [])"

text \<open>The same project with a district of empty name listed first.\<close>

definition unnamed_district_project :: "(int, shape, unit, shape, obj) arcpy" where
  "unnamed_district_project =
    demo demo_layers
      (features_of
        [(''Subject Parcel'', demo_parcels),
         (''Planning District Outline'',
            [(Box 0 0 400 400, '''', PyStr ''''),
             (Box 0 0 400 400, '''', PyStr ''Florida Mesa'')]),
         (''Florida Mesa'', demo_zones)])
      demo_layouts"

text \<open>The same project with a zone of empty label listed first around parcel P1.\<close>

definition unlabelled_zone_project :: "(int, shape, unit, shape, obj) arcpy" where
  "unlabelled_zone_project =
    demo demo_layers
      (features_of
        [(''Subject Parcel'', demo_parcels),
         (''Planning District Outline'', [(Box 0 0 400 400, '''', PyStr ''Florida Mesa'')]),
         (''Florida Mesa'', (Box 80 80 140 140, '''', PyStr '''') # demo_zones)])
      demo_layouts"

text \<open>
  A project whose district, Bayfield, is not a key of \<open>district_to_layer\<close>; the
  land-use layer of another district is the first layer of the map.
\<close>

definition bayfield_project :: "(int, shape, unit, shape, obj) arcpy" where
  "bayfield_project =
    demo [Layer ''Florida Mesa'', Layer ''Subject Parcel'', Layer ''Planning District Outline'']
      (features_of
        [(''Subject Parcel'', demo_parcels),
         (''Planning District Outline'', [(Box 0 0 400 400, '''', PyStr ''Bayfield'')]),
         (''Florida Mesa'', demo_zones)])
      demo_layouts"

text \<open>The project of the examples without the land-use layer of its district.\<close>

definition missing_layer_project :: "(int, shape, unit, shape, obj) arcpy" where
  "missing_layer_project =
    demo [Layer ''Subject Parcel'', Layer ''Planning District Outline'']
      (features_of demo_features) demo_layouts"

text \<open>The project of the examples without its parcel layer, and without its district layer.\<close>

definition no_parcel_layer_project :: "(int, shape, unit, shape, obj) arcpy" where
  "no_parcel_layer_project =
    demo [Layer ''Planning District Outline'', Layer ''Florida Mesa'']
      (features_of demo_features) demo_layouts"

definition no_district_layer_project :: "(int, shape, unit, shape, obj) arcpy" where
  "no_district_layer_project =
    demo [Layer ''Subject Parcel'', Layer ''Florida Mesa'']
      (features_of demo_features) demo_layouts"





text \<open>The project of the examples with the first layout only.\<close>

definition one_layout_project :: "(int, shape, unit, shape, obj) arcpy" where
  "one_layout_project = demo demo_layers (features_of demo_features) [''Layout1'']"


section \<open>The cursor loops\<close>

lemma scan_rows_find:
  "scan_rows test init rows =
     (case find (\<lambda>row. test (fst row)) rows of None \<Rightarrow> init | Some row \<Rightarrow> snd row)"
  by (induction rows) auto

lemma require_find:
  "require e (scan_rows test PyNone rows) =
     (case find (\<lambda>row. test (fst row)) rows of
        None \<Rightarrow> Inl e
      | Some row \<Rightarrow>
         (case snd row of
            PyNone \<Rightarrow> Inl e
          | PyStr s \<Rightarrow> (if s = [] then Inl e else Inr s)))"
  by (simp add: scan_rows_find require_def split: option.splits)


section \<open>Where a run stops\<close>


lemma parcel_report_error:
  "resolve E df pn st = (Inl e, st1) \<Longrightarrow> parcel_report E df out pn st = (Inl e, st1, [])"
  by (simp add: parcel_report_def)

lemma resolve_parcel_error:
  assumes "get_layers E = Inr (m, pl, dl)"
    and "parcel_geom E st pl pn = (Inl e, st1)"
  shows "resolve E df pn st = (Inl e, st1)"
  using assms by (simp add: resolve_def)

lemma resolve_district_error:
  assumes "get_layers E = Inr (m, pl, dl)"
    and "parcel_geom E st pl pn = (Inr (pg, ext), st1)"
    and "planning_district E st1 dl pg = Inl e"
  shows "resolve E df pn st = (Inl e, st1)"
  using assms by (simp add: resolve_def)

lemma resolve_layer_error:
  assumes "get_layers E = Inr (m, pl, dl)"
    and "parcel_geom E st pl pn = (Inr (pg, ext), st1)"
    and "planning_district E st1 dl pg = Inr d"
    and "land_use_layer E m d = Inl e"
  shows "resolve E df pn st = (Inl e, st1)"
  using assms by (simp add: resolve_def)

lemma resolve_land_use_error:
  assumes "get_layers E = Inr (m, pl, dl)"
    and "parcel_geom E st pl pn = (Inr (pg, ext), st1)"
    and "planning_district E st1 dl pg = Inr d"
    and "land_use_layer E m d = Inr l"
    and "land_use_value E st1 l pg = Inl e"
  shows "resolve E df pn st = (Inl e, st1)"
  using assms by (simp add: resolve_def)

section \<open>Evaluating the examples\<close>

text \<open>
  The definitions that evaluate the project of the examples, steps 1 to 3, and stripping
  and lowercasing.
\<close>

lemmas demo_defs =
  demo_project_def demo_def demo_layers_def demo_features_def demo_parcels_def demo_zones_def
  demo_layouts_def features_of_def no_queries_def definition_query_def cursor_def

lemmas step_defs =
  get_layers_def first_item_def next_item_def parcel_layer_name_def district_outline_name_def
  parcel_geom_def planning_district_def land_use_layer_def land_use_value_def require_def
  district_to_layer_get_def district_to_layer_def box_overlaps_def


section \<open>The columns of the spreadsheet\<close>






section \<open>Adjacent land uses: four entries\<close>




section \<open>The planning district\<close>

text \<open>
  Claim C3, as the script has it. Step 2 takes the first row of the district layer, in the
  cursor's order, whose shape contains the parcel. It gives that row's PLANNAME when this
  is a non-empty string. It ends with the exception
  \<open>No planning district found for selected parcel.\<close> when no row contains the parcel,
  and also when the PLANNAME of that first row is null or empty. With that exception the
  run is over: nothing is exported or written.
\<close>

theorem planning_district_first_named:
  "planning_district E st dl pg =
     (case find (\<lambda>row. contains E (fst row) pg) (cursor E st dl ''PLANNAME'') of
        None \<Rightarrow> Inl DistrictNotFound
      | Some row \<Rightarrow>
         (case snd row of
            PyNone \<Rightarrow> Inl DistrictNotFound
          | PyStr s \<Rightarrow> (if s = [] then Inl DistrictNotFound else Inr s)))
   \<and> (\<forall>e m pl st0 pn ext df out.
         planning_district E st dl pg = Inl e \<and>
         get_layers E = Inr (m, pl, dl) \<and>
         parcel_geom E st0 pl pn = (Inr (pg, ext), st) \<longrightarrow>
         parcel_report E df out pn st0 = (Inl e, st, []))"
  by (auto simp: planning_district_def require_find
        intro!: parcel_report_error resolve_district_error)

text \<open>Parcel P1 lies in Florida Mesa; parcel P2 lies in no district.\<close>

theorem planning_district_first_named_witness:
  "planning_district demo_project (no_queries(Layer ''Subject Parcel'' := definition_query ''P1''))
      (Layer ''Planning District Outline'') (Box 100 100 120 120) = Inr ''Florida Mesa''
   \<and> planning_district demo_project
      (no_queries(Layer ''Subject Parcel'' := definition_query ''P2''))
      (Layer ''Planning District Outline'') (Box 500 500 520 520) = Inl DistrictNotFound
   \<and> parcel_report demo_project demo_table ''out'' ''P2'' no_queries =
       (Inl DistrictNotFound, no_queries(Layer ''Subject Parcel'' := definition_query ''P2''), [])"
proof -
  let ?dl = "Layer ''Planning District Outline''"
  let ?st1 = "no_queries(Layer ''Subject Parcel'' := definition_query ''P1'')"
  let ?st2 = "no_queries(Layer ''Subject Parcel'' := definition_query ''P2'')"
  note t1 = planning_district_first_named [of demo_project ?st1 ?dl "Box 100 100 120 120"]
  note t2 = planning_district_first_named [of demo_project ?st2 ?dl "Box 500 500 520 520"]
  have f1: "find (\<lambda>row. contains demo_project (fst row) (Box 100 100 120 120))
              (cursor demo_project ?st1 ?dl ''PLANNAME'') =
            Some (Box 0 0 400 400, PyStr ''Florida Mesa'')"
    by (simp add: demo_defs)
  have f2: "find (\<lambda>row. contains demo_project (fst row) (Box 500 500 520 520))
              (cursor demo_project ?st2 ?dl ''PLANNAME'') = None"
    by (simp add: demo_defs)
  have h1: "get_layers demo_project = Inr (TheMap, Layer ''Subject Parcel'', ?dl)"
    by (simp add: step_defs demo_defs)
  have h2: "parcel_geom demo_project no_queries (Layer ''Subject Parcel'') ''P2'' =
              (Inr (Box 500 500 520 520, Box 500 500 520 520), ?st2)"
    by (simp add: step_defs demo_defs)
  from t1 f1 have a: "planning_district demo_project ?st1 ?dl (Box 100 100 120 120) =
      Inr ''Florida Mesa''"
    by simp
  from t2 f2 have b: "planning_district demo_project ?st2 ?dl (Box 500 500 520 520) =
      Inl DistrictNotFound"
    by simp
  from t2 b h1 h2 have "parcel_report demo_project demo_table ''out'' ''P2'' no_queries =
      (Inl DistrictNotFound, ?st2, [])"
    by blast
  with a b show ?thesis by simp
qed

text \<open>
  A district of empty name that contains parcel P1 and comes first: the script does not
  return its name, it raises.
\<close>

theorem planning_district_empty_name_counterexample:
  "find (\<lambda>row. contains unnamed_district_project (fst row) (Box 100 100 120 120))
     (cursor unnamed_district_project
        (no_queries(Layer ''Subject Parcel'' := definition_query ''P1''))
        (Layer ''Planning District Outline'') ''PLANNAME'') =
     Some (Box 0 0 400 400, PyStr '''')
   \<and> planning_district unnamed_district_project
        (no_queries(Layer ''Subject Parcel'' := definition_query ''P1''))
        (Layer ''Planning District Outline'') (Box 100 100 120 120) = Inl DistrictNotFound
   \<and> fst (parcel_report unnamed_district_project demo_table ''out'' ''P1'' no_queries) =
        Inl DistrictNotFound"
  by (simp add: unnamed_district_project_def parcel_report_def resolve_def step_defs demo_defs)

section \<open>The land use\<close>

text \<open>
  Claim C2, as the script has it. Step 3 takes the first row of the land-use layer, in
  the cursor's order, whose shape overlaps or contains the parcel. It gives that row's
  LUC_TEXT when this is a non-empty string. It ends with the exception
  \<open>No land use value found for selected parcel.\<close> when no row passes the test, and
  also when the LUC_TEXT of that first row is null or empty. With that exception the run
  is over: nothing is exported or written.
\<close>

theorem land_use_value_first_labelled:
  "land_use_value E st layer pg =
     (case find (\<lambda>row. overlaps E (fst row) pg \<or> contains E (fst row) pg)
             (cursor E st layer ''LUC_TEXT'') of
        None \<Rightarrow> Inl LandUseNotFound
      | Some row \<Rightarrow>
         (case snd row of
            PyNone \<Rightarrow> Inl LandUseNotFound
          | PyStr s \<Rightarrow> (if s = [] then Inl LandUseNotFound else Inr s)))
   \<and> (\<forall>e m pl dl st0 pn ext d df out.
         land_use_value E st layer pg = Inl e \<and>
         get_layers E = Inr (m, pl, dl) \<and>
         parcel_geom E st0 pl pn = (Inr (pg, ext), st) \<and>
         planning_district E st dl pg = Inr d \<and>
         land_use_layer E m d = Inr layer \<longrightarrow>
         parcel_report E df out pn st0 = (Inl e, st, []))"
  by (auto simp: land_use_value_def require_find
        intro!: parcel_report_error resolve_land_use_error)

text \<open>
  A zone of empty label around parcel P1 that comes first: the script does not return
  its label, it raises.
\<close>

theorem land_use_value_empty_label_counterexample:
  "find (\<lambda>row. overlaps unlabelled_zone_project (fst row) (Box 100 100 120 120) \<or>
               contains unlabelled_zone_project (fst row) (Box 100 100 120 120))
     (cursor unlabelled_zone_project
        (no_queries(Layer ''Subject Parcel'' := definition_query ''P1''))
        (Layer ''Florida Mesa'') ''LUC_TEXT'') =
     Some (Box 80 80 140 140, PyStr '''')
   \<and> land_use_value unlabelled_zone_project
        (no_queries(Layer ''Subject Parcel'' := definition_query ''P1''))
        (Layer ''Florida Mesa'') (Box 100 100 120 120) = Inl LandUseNotFound
   \<and> fst (parcel_report unlabelled_zone_project demo_table ''out'' ''P1'' no_queries) =
        Inl LandUseNotFound"
  by (simp add: unlabelled_zone_project_def parcel_report_def resolve_def step_defs demo_defs)

text \<open>
  The zone around parcel P1 is Agricultural; with the zone of empty label in front, the
  run ends at step 3.
\<close>

theorem land_use_value_first_labelled_witness:
  "land_use_value demo_project (no_queries(Layer ''Subject Parcel'' := definition_query ''P1''))
      (Layer ''Florida Mesa'') (Box 100 100 120 120) = Inr ''Agricultural''
   \<and> parcel_report unlabelled_zone_project demo_table ''out'' ''P1'' no_queries =
       (Inl LandUseNotFound, no_queries(Layer ''Subject Parcel'' := definition_query ''P1''), [])"
proof -
  let ?pl = "Layer ''Subject Parcel''"
  let ?dl = "Layer ''Planning District Outline''"
  let ?l = "Layer ''Florida Mesa''"
  let ?pg = "Box 100 100 120 120"
  let ?st = "no_queries(?pl := definition_query ''P1'')"
  note t1 = land_use_value_first_labelled [of demo_project ?st ?l ?pg]
  note t2 = land_use_value_first_labelled [of unlabelled_zone_project ?st ?l ?pg]
  have f1: "find (\<lambda>row. overlaps demo_project (fst row) ?pg \<or> contains demo_project (fst row) ?pg)
              (cursor demo_project ?st ?l ''LUC_TEXT'') =
            Some (Box 90 90 130 130, PyStr ''Agricultural'')"
    by (simp add: demo_defs box_overlaps_def)
  have f2: "find (\<lambda>row. overlaps unlabelled_zone_project (fst row) ?pg \<or>
                        contains unlabelled_zone_project (fst row) ?pg)
              (cursor unlabelled_zone_project ?st ?l ''LUC_TEXT'') =
            Some (Box 80 80 140 140, PyStr '''')"
    by (simp add: unlabelled_zone_project_def demo_defs box_overlaps_def)
  have h1: "get_layers unlabelled_zone_project = Inr (TheMap, ?pl, ?dl)"
    by (simp add: unlabelled_zone_project_def step_defs demo_defs)
  have h2: "parcel_geom unlabelled_zone_project no_queries ?pl ''P1'' = (Inr (?pg, ?pg), ?st)"
    by (simp add: unlabelled_zone_project_def step_defs demo_defs)
  have h3: "planning_district unlabelled_zone_project ?st ?dl ?pg = Inr ''Florida Mesa''"
    by (simp add: unlabelled_zone_project_def step_defs demo_defs)
  have h4: "land_use_layer unlabelled_zone_project TheMap ''Florida Mesa'' = Inr ?l"
    by (simp add: unlabelled_zone_project_def step_defs demo_defs)
  from t1 f1 have a: "land_use_value demo_project ?st ?l ?pg = Inr ''Agricultural''"
    by simp
  from t2 f2 have b: "land_use_value unlabelled_zone_project ?st ?l ?pg = Inl LandUseNotFound"
    by simp
  from t2 b h1 h2 h3 h4
  have "parcel_report unlabelled_zone_project demo_table ''out'' ''P1'' no_queries =
      (Inl LandUseNotFound, ?st, [])"
    by blast
  with a show ?thesis by simp
qed

section \<open>A parcel number with no feature\<close>

text \<open>
  Claim C5, what the script does. When the cursor of step 1 has no row for the parcel
  number, \<^verbatim>\<open>next(cursor)\<close> raises StopIteration: the first row is taken without a
  test for an empty cursor, and the run ends there with the definition query set.
\<close>

theorem parcel_geom_empty_cursor:
  assumes "SearchCursor E pl (definition_query pn) ''ParcelNumber'' = []"
  shows "parcel_geom E st pl pn = (Inl StopIteration, st(pl := definition_query pn))
   \<and> (\<forall>m dl df out. get_layers E = Inr (m, pl, dl) \<longrightarrow>
         parcel_report E df out pn st = (Inl StopIteration, st(pl := definition_query pn), []))"
proof -
  have a: "parcel_geom E st pl pn = (Inl StopIteration, st(pl := definition_query pn))"
    using assms by (simp add: parcel_geom_def cursor_def next_item_def)
  then show ?thesis
    by (auto intro!: parcel_report_error resolve_parcel_error)
qed

text \<open>No parcel of the project has the number P9.\<close>

theorem parcel_geom_empty_cursor_witness:
  "SearchCursor demo_project (Layer ''Subject Parcel'') (definition_query ''P9'') ''ParcelNumber'' = []
   \<and> parcel_report demo_project demo_table ''out'' ''P9'' no_queries =
       (Inl StopIteration, no_queries(Layer ''Subject Parcel'' := definition_query ''P9''), [])"
proof -
  have e: "SearchCursor demo_project (Layer ''Subject Parcel'') (definition_query ''P9'')
             ''ParcelNumber'' = []"
    by (simp add: demo_defs)
  have h1: "get_layers demo_project =
      Inr (TheMap, Layer ''Subject Parcel'', Layer ''Planning District Outline'')"
    by (simp add: step_defs demo_defs)
  from parcel_geom_empty_cursor [OF e, of no_queries] h1 e show ?thesis
    by blast
qed

section \<open>A district that is not a key of the mapping\<close>

text \<open>
  Claim C6, what the script does. For a district that is not a key of
  \<open>district_to_layer\<close>, \<^verbatim>\<open>get\<close> gives None and the layers of the map are listed
  with None for the name: the first layer listed becomes the land-use layer. The only
  exception this lookup can raise is IndexError, on an empty list.
\<close>

theorem land_use_layer_unmapped:
  "(map_of district_to_layer d = None \<longrightarrow>
      land_use_layer E m d = first_item (listLayers E m PyNone))
   \<and> (\<forall>e. land_use_layer E m d = Inl e \<longrightarrow> e = IndexError)"
  by (auto simp: land_use_layer_def district_to_layer_get_def first_item_def
        split: list.splits)

text \<open>
  In the Bayfield project the run goes through: the summary reports the land use of the
  first layer of the map, and three layouts and the summary are written.
\<close>

theorem land_use_layer_unmapped_witness:
  "map_of district_to_layer ''Bayfield'' = None
   \<and> land_use_layer bayfield_project TheMap ''Bayfield'' = Inr (Layer ''Florida Mesa'')
   \<and> fst (parcel_report bayfield_project demo_table ''out'' ''P1'' no_queries) =
       Inr (nl @ ''Parcel Number: P1'' @ nl @
            ''Planning District: Bayfield'' @ nl @
            ''Land Use Type: Agricultural'' @ nl @ nl @
            ''From Excel:'' @ nl @
            ''  Size: Not found'' @ nl @
            ''  Description: Not found'' @ nl @ nl @
            ''Adjacent Land Use:'' @ nl @
            ''  North: Residential'' @ nl @
            ''  East:  Commercial'' @ nl @
            ''  South: Residential'' @ nl @
            ''  West:  Unknown'' @ nl)
   \<and> length (filter is_output
        (snd (snd (parcel_report bayfield_project demo_table ''out'' ''P1'' no_queries)))) = 4"
proof -
  have k: "map_of district_to_layer ''Bayfield'' = None"
    by (simp add: district_to_layer_def)
  have l: "first_item (listLayers bayfield_project TheMap PyNone) = Inr (Layer ''Florida Mesa'')"
    by (simp add: bayfield_project_def first_item_def demo_def)
  from land_use_layer_unmapped [of "''Bayfield''" bayfield_project TheMap] k l
  have a: "land_use_layer bayfield_project TheMap ''Bayfield'' = Inr (Layer ''Florida Mesa'')"
    by simp
  have c: "fst (parcel_report bayfield_project demo_table ''out'' ''P1'' no_queries) =
       Inr (nl @ ''Parcel Number: P1'' @ nl @
            ''Planning District: Bayfield'' @ nl @
            ''Land Use Type: Agricultural'' @ nl @ nl @
            ''From Excel:'' @ nl @
            ''  Size: Not found'' @ nl @
            ''  Description: Not found'' @ nl @ nl @
            ''Adjacent Land Use:'' @ nl @
            ''  North: Residential'' @ nl @
            ''  East:  Commercial'' @ nl @
            ''  South: Residential'' @ nl @
            ''  West:  Unknown'' @ nl)"
    by code_simp
  have d: "length (filter is_output
        (snd (snd (parcel_report bayfield_project demo_table ''out'' ''P1'' no_queries)))) = 4"
    by code_simp
  from k a c d show ?thesis by blast
qed

section \<open>Exceptions and output\<close>

lemma export_layouts_error:
  "fst (export_layouts E ext out pn cfg) = Inl e \<Longrightarrow> e = IndexError"
proof (induction cfg)
  case Nil
  then show ?case by simp
next
  case (Cons c cfg)
  obtain layout_name frame scale where c: "c = (layout_name, frame, scale)"
    by (cases c)
  from Cons show ?case
    unfolding c
    by (auto simp: first_item_def Let_def split: list.splits)
qed

lemma summary_text_error:
  "summary_text pn d lu s ds dlu = Inl e \<Longrightarrow> e = KeyError"
  by (auto simp: summary_text_def dict_item_def split: option.splits)

lemma publish_error:
  "fst (publish E out pn r) = Inl e \<Longrightarrow> e = IndexError \<or> e = KeyError \<or> e = OSError"
  by (auto simp: publish_def split: prod.splits sum.splits if_splits
        dest: export_layouts_error summary_text_error
        dest!: arg_cong [where f = fst])

text \<open>
  Claim C7. An exception of steps 1 to 3 ends the run with no effect of steps 6 and 7.
  A run that ends with StopIteration (no feature for the parcel number), with
  \<open>No planning district found for selected parcel.\<close> or with
  \<open>No land use value found for selected parcel.\<close> has exported no layout and
  written no summary.
\<close>

theorem fatal_errors_before_output:
  "(\<forall>e st1. resolve E df pn st = (Inl e, st1) \<longrightarrow>
       parcel_report E df out pn st = (Inl e, st1, []))
   \<and> (fst (parcel_report E df out pn st) = Inl StopIteration \<or>
      fst (parcel_report E df out pn st) = Inl DistrictNotFound \<or>
      fst (parcel_report E df out pn st) = Inl LandUseNotFound \<longrightarrow>
        snd (snd (parcel_report E df out pn st)) = [] \<and>
        filter is_output (snd (snd (parcel_report E df out pn st))) = [])"
proof -
  have a: "\<forall>e st1. resolve E df pn st = (Inl e, st1) \<longrightarrow>
       parcel_report E df out pn st = (Inl e, st1, [])"
    by (simp add: parcel_report_error)
  have b: "snd (snd (parcel_report E df out pn st)) = []"
    if h: "fst (parcel_report E df out pn st) = Inl StopIteration \<or>
      fst (parcel_report E df out pn st) = Inl DistrictNotFound \<or>
      fst (parcel_report E df out pn st) = Inl LandUseNotFound"
  proof (cases "resolve E df pn st")
    case (Pair res st1)
    show ?thesis
    proof (cases res)
      case (Inl e)
      with Pair show ?thesis by (simp add: parcel_report_def)
    next
      case (Inr r)
      with Pair have "fst (parcel_report E df out pn st) = fst (publish E out pn r)"
        by (simp add: parcel_report_def)
      with h publish_error [of E out pn r] show ?thesis
        by (auto simp: DistrictNotFound_def LandUseNotFound_def)
    qed
  qed
  from a b show ?thesis by simp
qed

text \<open>Parcel P2 lies in no district: the run ends at step 2 with no effect.\<close>

theorem fatal_errors_before_output_witness:
  "resolve demo_project demo_table ''P2'' no_queries =
     (Inl DistrictNotFound, no_queries(Layer ''Subject Parcel'' := definition_query ''P2''))
   \<and> parcel_report demo_project demo_table ''out'' ''P2'' no_queries =
     (Inl DistrictNotFound, no_queries(Layer ''Subject Parcel'' := definition_query ''P2''), [])
   \<and> filter is_output
        (snd (snd (parcel_report demo_project demo_table ''out'' ''P2'' no_queries))) = []"
proof -
  let ?st = "no_queries(Layer ''Subject Parcel'' := definition_query ''P2'')"
  note t = fatal_errors_before_output [of demo_project demo_table "''P2''" no_queries "''out''"]
  have r: "resolve demo_project demo_table ''P2'' no_queries = (Inl DistrictNotFound, ?st)"
    by (simp add: resolve_def step_defs demo_defs)
  have p: "parcel_report demo_project demo_table ''out'' ''P2'' no_queries =
     (Inl DistrictNotFound, ?st, [])"
    using t [THEN conjunct1, rule_format, OF r] .
  have f: "fst (parcel_report demo_project demo_table ''out'' ''P2'' no_queries) =
     Inl DistrictNotFound"
    unfolding p by simp
  have o: "filter is_output
        (snd (snd (parcel_report demo_project demo_table ''out'' ''P2'' no_queries))) = []"
    using t [THEN conjunct2, rule_format, OF disjI2, OF disjI1, OF f] by (rule conjunct2)
  show ?thesis
    using r p o by (intro conjI)
qed

text \<open>
  IndexError is not among them: step 6 raises it for a layout that is missing, after the
  layouts before it are exported.
\<close>

lemma export_failure_after_output:
  "fst (parcel_report one_layout_project demo_table ''out'' ''P1'' no_queries) = Inl IndexError
   \<and> filter is_output
        (snd (snd (parcel_report one_layout_project demo_table ''out'' ''P1'' no_queries))) =
       [ExportToJPEG (Layout ''Layout1'') ''out/P1_Layout1.jpg'' 300]"
  by code_simp

section \<open>What step 1 changes\<close>

text \<open>
  Claim C8, as the script has it. Step 1 sets the definition query of the parcel layer
  to \<open>ParcelNumber = 'number'\<close> and leaves the definition query of every other layer
  as it was. What it returns is the shape and extent of the first row of the cursor under
  the new query, whatever the definition queries were before.
\<close>

theorem parcel_geom_layer_state:
  "snd (parcel_geom E st pl pn) pl = definition_query pn
   \<and> (\<forall>layer. layer \<noteq> pl \<longrightarrow> snd (parcel_geom E st pl pn) layer = st layer)
   \<and> fst (parcel_geom E st pl pn) = fst (parcel_geom E st' pl pn)
   \<and> fst (parcel_geom E st pl pn) =
       (case SearchCursor E pl (definition_query pn) ''ParcelNumber'' of
          [] \<Rightarrow> Inl StopIteration
        | row # rows \<Rightarrow> Inr (fst row, extent E (fst row)))"
  by (simp add: parcel_geom_def cursor_def next_item_def Let_def split: list.splits)

text \<open>Step 1 for parcel P1 in the project of the examples.\<close>

theorem parcel_geom_layer_state_witness:
  "snd (parcel_geom demo_project no_queries (Layer ''Subject Parcel'') ''P1'')
      (Layer ''Florida Mesa'') = []
   \<and> snd (parcel_geom demo_project no_queries (Layer ''Subject Parcel'') ''P1'')
      (Layer ''Subject Parcel'') = definition_query ''P1''
   \<and> fst (parcel_geom demo_project no_queries (Layer ''Subject Parcel'') ''P1'') =
       Inr (Box 100 100 120 120, Box 100 100 120 120)"
proof -
  note t = parcel_geom_layer_state
    [of demo_project no_queries "Layer ''Subject Parcel''" "''P1''" no_queries]
  have n: "Layer ''Florida Mesa'' \<noteq> Layer ''Subject Parcel''"
    by simp
  have q: "no_queries (Layer ''Florida Mesa'') = []"
    by (simp add: no_queries_def)
  have c: "SearchCursor demo_project (Layer ''Subject Parcel'') (definition_query ''P1'')
      ''ParcelNumber'' = [(Box 100 100 120 120, PyStr ''P1'')]"
    by (simp add: demo_defs)
  have x: "extent demo_project (Box 100 100 120 120) = Box 100 100 120 120"
    by (simp add: demo_defs)
  have a: "snd (parcel_geom demo_project no_queries (Layer ''Subject Parcel'') ''P1'')
      (Layer ''Florida Mesa'') = []"
    using t [THEN conjunct2, THEN conjunct1, rule_format, OF n] q by simp
  have b: "fst (parcel_geom demo_project no_queries (Layer ''Subject Parcel'') ''P1'') =
       Inr (Box 100 100 120 120, Box 100 100 120 120)"
    using t [THEN conjunct2, THEN conjunct2, THEN conjunct2] c x by simp
  show ?thesis
    using a t [THEN conjunct1] b by (intro conjI)
qed

text \<open>
  The parcel layer had no definition query before step 1 and has one after it: a state of
  a layer is modified.
\<close>

theorem parcel_geom_no_side_effect_counterexample:
  "no_queries (Layer ''Subject Parcel'') = []
   \<and> snd (parcel_geom demo_project no_queries (Layer ''Subject Parcel'') ''P1'')
        (Layer ''Subject Parcel'') = ''ParcelNumber = '' @ [CHR 0x27] @ ''P1'' @ [CHR 0x27]
   \<and> snd (parcel_geom demo_project no_queries (Layer ''Subject Parcel'') ''P1'') \<noteq> no_queries"
proof -
  have a: "no_queries (Layer ''Subject Parcel'') = []"
    by (simp add: no_queries_def)
  have b: "snd (parcel_geom demo_project no_queries (Layer ''Subject Parcel'') ''P1'')
        (Layer ''Subject Parcel'') = ''ParcelNumber = '' @ [CHR 0x27] @ ''P1'' @ [CHR 0x27]"
    by (simp add: parcel_geom_def Let_def definition_query_def split: sum.splits)
  have c: "snd (parcel_geom demo_project no_queries (Layer ''Subject Parcel'') ''P1'') \<noteq>
      no_queries"
  proof
    assume "snd (parcel_geom demo_project no_queries (Layer ''Subject Parcel'') ''P1'') =
      no_queries"
    then have "snd (parcel_geom demo_project no_queries (Layer ''Subject Parcel'') ''P1'')
        (Layer ''Subject Parcel'') = no_queries (Layer ''Subject Parcel'')"
      by (rule arg_cong [where f = "\<lambda>s. s (Layer ''Subject Parcel'')"])
    with a b show False by simp
  qed
  show ?thesis
    using a b c by (intro conjI)
qed

section \<open>Running the script again\<close>

lemma resolve_query_set:
  "get_layers E = Inr (m, pl, dl) \<Longrightarrow>
   resolve E df pn (st(pl := definition_query pn)) =
     (fst (resolve E df pn st), st(pl := definition_query pn))"
  by (auto simp: resolve_def parcel_geom_def Let_def split: sum.splits prod.splits)

lemma resolve_no_layers:
  "get_layers E = Inl e \<Longrightarrow> resolve E df pn st = (Inl e, st)"
  by (simp add: resolve_def)

lemma resolve_snd:
  "get_layers E = Inr (m, pl, dl) \<Longrightarrow>
   snd (resolve E df pn st) = st(pl := definition_query pn)"
  by (auto simp: resolve_def parcel_geom_def Let_def split: sum.splits prod.splits)

lemma resolve_idempotent:
  "resolve E df pn (snd (resolve E df pn st)) = resolve E df pn st"
proof (cases "get_layers E")
  case (Inl e)
  then show ?thesis by (simp add: resolve_no_layers)
next
  case (Inr t)
  obtain m pl dl where t: "t = (m, pl, dl)" by (cases t)
  with Inr have g: "get_layers E = Inr (m, pl, dl)" by simp
  show ?thesis
    using resolve_snd [OF g, of df pn st] resolve_query_set [OF g, of df pn st]
    by (simp add: prod_eq_iff)
qed

text \<open>
  Claim C9. A second run for the same parcel number, on the same project, table and
  output folder, started from the definition queries the first run has left, ends as the
  first run did, leaves the same definition queries and has the same effects in the same
  order: the same layouts exported to the same paths and the same text written to the
  same summary file.
\<close>

theorem parcel_report_idempotent:
  "parcel_report E df out pn (fst (snd (parcel_report E df out pn st))) =
     parcel_report E df out pn st"
proof -
  have s: "fst (snd (parcel_report E df out pn st)) = snd (resolve E df pn st)"
    by (simp add: parcel_report_def split: prod.splits sum.splits)
  have "parcel_report E df out pn (snd (resolve E df pn st)) = parcel_report E df out pn st"
    by (simp add: parcel_report_def resolve_idempotent)
  with s show ?thesis by simp
qed

text \<open>
  Parcel P1 of the project of the examples: the run writes its summary, and the run that
  follows it is the same run.
\<close>

theorem parcel_report_idempotent_witness:
  "parcel_report demo_project demo_table ''out'' ''P1''
      (fst (snd (parcel_report demo_project demo_table ''out'' ''P1'' no_queries))) =
     parcel_report demo_project demo_table ''out'' ''P1'' no_queries
   \<and> fst (parcel_report demo_project demo_table ''out'' ''P1'' no_queries) =
       Inr (nl @ ''Parcel Number: P1'' @ nl @
            ''Planning District: Florida Mesa'' @ nl @
            ''Land Use Type: Agricultural'' @ nl @ nl @
            ''From Excel:'' @ nl @
            ''  Size: 35 acres'' @ nl @
            ''  Description: Farm land'' @ nl @ nl @
            ''Adjacent Land Use:'' @ nl @
            ''  North: Residential'' @ nl @
            ''  East:  Commercial'' @ nl @
            ''  South: Residential'' @ nl @
            ''  West:  Unknown'' @ nl)"
proof -
  have c: "fst (parcel_report demo_project demo_table ''out'' ''P1'' no_queries) =
       Inr (nl @ ''Parcel Number: P1'' @ nl @
            ''Planning District: Florida Mesa'' @ nl @
            ''Land Use Type: Agricultural'' @ nl @ nl @
            ''From Excel:'' @ nl @
            ''  Size: 35 acres'' @ nl @
            ''  Description: Farm land'' @ nl @ nl @
            ''Adjacent Land Use:'' @ nl @
            ''  North: Residential'' @ nl @
            ''  East:  Commercial'' @ nl @
            ''  South: Residential'' @ nl @
            ''  West:  Unknown'' @ nl)"
    by code_simp
  show ?thesis
    using parcel_report_idempotent [of demo_project demo_table "''out''" "''P1''" no_queries] c
    by (intro conjI)
qed

section \<open>A layer that is missing\<close>

lemma get_layers_no_parcel_layer:
  "listMaps E = m # ms \<Longrightarrow> listLayers E m (PyStr ''Subject Parcel'') = [] \<Longrightarrow>
   get_layers E = Inl IndexError"
  by (simp add: get_layers_def first_item_def parcel_layer_name_def)

lemma get_layers_no_district_layer:
  "listMaps E = m # ms \<Longrightarrow> listLayers E m (PyStr ''Subject Parcel'') = pl # pls \<Longrightarrow>
   filter (isFeatureLayer E) (listLayers E m (PyStr ''Planning District Outline'')) = [] \<Longrightarrow>
   get_layers E = Inl IndexError"
  by (simp add: get_layers_def first_item_def parcel_layer_name_def district_outline_name_def)

lemma land_use_layer_missing:
  "map_of district_to_layer d = Some n \<Longrightarrow> listLayers E m (PyStr n) = [] \<Longrightarrow>
   land_use_layer E m d = Inl IndexError"
  by (simp add: land_use_layer_def district_to_layer_get_def first_item_def)

text \<open>
  Claim C10. When the map lists no layer named Subject Parcel, or no feature layer named
  Planning District Outline, or, once the district is resolved, no layer of the name the
  mapping gives for it, the index \<open>[0]\<close> raises IndexError: the run ends with it and
  with no effect of steps 6 and 7. IndexError is none of StopIteration and the two
  exceptions of steps 2 and 3.
\<close>

theorem missing_layer_index_error:
  "(\<forall>m ms. listMaps E = m # ms \<and> listLayers E m (PyStr ''Subject Parcel'') = [] \<longrightarrow>
       parcel_report E df out pn st = (Inl IndexError, st, []))
   \<and> (\<forall>m ms pl pls. listMaps E = m # ms \<and>
         listLayers E m (PyStr ''Subject Parcel'') = pl # pls \<and>
         filter (isFeatureLayer E) (listLayers E m (PyStr ''Planning District Outline'')) = [] \<longrightarrow>
       parcel_report E df out pn st = (Inl IndexError, st, []))
   \<and> (\<forall>m pl dl pg ext st1 d n.
         get_layers E = Inr (m, pl, dl) \<and>
         parcel_geom E st pl pn = (Inr (pg, ext), st1) \<and>
         planning_district E st1 dl pg = Inr d \<and>
         map_of district_to_layer d = Some n \<and>
         listLayers E m (PyStr n) = [] \<longrightarrow>
       parcel_report E df out pn st = (Inl IndexError, st1, []))
   \<and> IndexError \<noteq> StopIteration
   \<and> IndexError \<noteq> DistrictNotFound
   \<and> IndexError \<noteq> LandUseNotFound"
proof -
  have a: "\<forall>m ms. listMaps E = m # ms \<and> listLayers E m (PyStr ''Subject Parcel'') = [] \<longrightarrow>
       parcel_report E df out pn st = (Inl IndexError, st, [])"
    by (auto intro!: parcel_report_error resolve_no_layers get_layers_no_parcel_layer)
  have b: "\<forall>m ms pl pls. listMaps E = m # ms \<and>
         listLayers E m (PyStr ''Subject Parcel'') = pl # pls \<and>
         filter (isFeatureLayer E) (listLayers E m (PyStr ''Planning District Outline'')) = [] \<longrightarrow>
       parcel_report E df out pn st = (Inl IndexError, st, [])"
    by (auto intro!: parcel_report_error resolve_no_layers
          intro: get_layers_no_district_layer)
  have c: "\<forall>m pl dl pg ext st1 d n.
         get_layers E = Inr (m, pl, dl) \<and>
         parcel_geom E st pl pn = (Inr (pg, ext), st1) \<and>
         planning_district E st1 dl pg = Inr d \<and>
         map_of district_to_layer d = Some n \<and>
         listLayers E m (PyStr n) = [] \<longrightarrow>
       parcel_report E df out pn st = (Inl IndexError, st1, [])"
    by (auto intro!: parcel_report_error
          intro: resolve_layer_error land_use_layer_missing)
  have d: "IndexError \<noteq> StopIteration \<and> IndexError \<noteq> DistrictNotFound \<and>
      IndexError \<noteq> LandUseNotFound"
    by (simp add: DistrictNotFound_def LandUseNotFound_def)
  from a b c d show ?thesis by (intro conjI) simp_all
qed

text \<open>
  The project of the examples without its parcel layer, without its district layer, and
  without the land-use layer of Florida Mesa.
\<close>

theorem missing_layer_index_error_witness:
  "parcel_report no_parcel_layer_project demo_table ''out'' ''P1'' no_queries =
     (Inl IndexError, no_queries, [])
   \<and> parcel_report no_district_layer_project demo_table ''out'' ''P1'' no_queries =
     (Inl IndexError, no_queries, [])
   \<and> parcel_report missing_layer_project demo_table ''out'' ''P1'' no_queries =
     (Inl IndexError, no_queries(Layer ''Subject Parcel'' := definition_query ''P1''), [])"
proof -
  let ?pl = "Layer ''Subject Parcel''"
  let ?dl = "Layer ''Planning District Outline''"
  let ?pg = "Box 100 100 120 120"
  let ?st = "no_queries(?pl := definition_query ''P1'')"
  note t1 = missing_layer_index_error
    [of no_parcel_layer_project demo_table "''out''" "''P1''" no_queries]
  note t2 = missing_layer_index_error
    [of no_district_layer_project demo_table "''out''" "''P1''" no_queries]
  note t3 = missing_layer_index_error
    [of missing_layer_project demo_table "''out''" "''P1''" no_queries]
  have a1: "listMaps no_parcel_layer_project = TheMap # [] \<and>
      listLayers no_parcel_layer_project TheMap (PyStr ''Subject Parcel'') = []"
    by (simp add: no_parcel_layer_project_def demo_def)
  have b1: "listMaps no_district_layer_project = TheMap # [] \<and>
      listLayers no_district_layer_project TheMap (PyStr ''Subject Parcel'') = ?pl # [] \<and>
      filter (isFeatureLayer no_district_layer_project)
        (listLayers no_district_layer_project TheMap (PyStr ''Planning District Outline'')) = []"
    by (simp add: no_district_layer_project_def demo_def)
  have c1: "get_layers missing_layer_project = Inr (TheMap, ?pl, ?dl) \<and>
      parcel_geom missing_layer_project no_queries ?pl ''P1'' = (Inr (?pg, ?pg), ?st) \<and>
      planning_district missing_layer_project ?st ?dl ?pg = Inr ''Florida Mesa'' \<and>
      map_of district_to_layer ''Florida Mesa'' = Some ''Florida Mesa'' \<and>
      listLayers missing_layer_project TheMap (PyStr ''Florida Mesa'') = []"
    by (simp add: missing_layer_project_def step_defs demo_defs)
  have a: "parcel_report no_parcel_layer_project demo_table ''out'' ''P1'' no_queries =
     (Inl IndexError, no_queries, [])"
    using t1 [THEN conjunct1, rule_format, OF a1] .
  have b: "parcel_report no_district_layer_project demo_table ''out'' ''P1'' no_queries =
     (Inl IndexError, no_queries, [])"
    using t2 [THEN conjunct2, THEN conjunct1, rule_format, OF b1] .
  have c: "parcel_report missing_layer_project demo_table ''out'' ''P1'' no_queries =
     (Inl IndexError, ?st, [])"
    using t3 [THEN conjunct2, THEN conjunct2, THEN conjunct1, rule_format, OF c1] .
  show ?thesis
    using a b c by (intro conjI)
qed

section \<open>The row of the spreadsheet\<close>












end
